theory Spec2Isabelle
  imports Main "HOL-Library.AList"
begin

section \<open>JavaScript values\<close>

text \<open>
  The values that flow through \<^verbatim>\<open>Yobit.js\<close>: request parameters, the nonce and the
  construction options are untyped JavaScript values. A number is a double; \<open>JNum n\<close> is
  the double whose value is the integer \<open>n\<close> (Unix timestamps, order ids and nonces), and
  \<open>JNaN\<close> is the number that is not a number. Fractions and infinities are outside the
  model. A string is a list of code units below 256, the characters of ASCII and Latin-1
  (method names, pair symbols, keys); strings with other characters are outside the model.
\<close>

datatype jsval =
    JUndefined
  | JNull
  | JBool bool
  | JNum int
  | JNaN
  | JStr string
  | JArr "jsval list"

datatype error = TypeError

text \<open>ToBoolean: \<open>undefined\<close>, \<open>null\<close>, \<open>false\<close>, \<open>0\<close>, \<open>NaN\<close> and the empty string are falsy.\<close>

fun truthy :: "jsval \<Rightarrow> bool" where
  "truthy JUndefined = False"
| "truthy JNull = False"
| "truthy (JBool b) = b"
| "truthy (JNum n) = (n \<noteq> 0)"
| "truthy JNaN = False"
| "truthy (JStr s) = (s \<noteq> [])"
| "truthy (JArr xs) = True"

subsection \<open>Arithmetic on numbers\<close>

text \<open>
  A double holds 53 significant bits. The sum of two integers is the integer nearest to the
  exact sum that fits into 53 bits, the one with the even last bit when two are equally
  near: \<open>roundToDouble\<close>, where \<open>shifts a\<close> is the number of low bits of \<open>a\<close> that do not
  fit. Every integer of magnitude up to \<open>2 ^ 53\<close> is kept as it is. Sums beyond the largest
  double, which are infinite, do not arise from adding one to a double.
\<close>

function shifts :: "int \<Rightarrow> nat" where
  "shifts a = (if a < 2 ^ 53 then 0 else Suc (shifts (a div 2)))"
  by pat_completeness auto
termination
  by (relation "measure nat") auto

declare shifts.simps [simp del]

definition roundToDouble :: "int \<Rightarrow> int" where
  "roundToDouble m =
     (let a = \<bar>m\<bar>;
          e = shifts a;
          q = a div 2 ^ e;
          r = a mod 2 ^ e;
          q' = (if 2 ^ e < 2 * r \<or> (2 * r = 2 ^ e \<and> odd q) then q + 1 else q)
      in sgn m * (q' * 2 ^ e))"

text \<open>The integers that a number holds with all their neighbours
  (\<^verbatim>\<open>Number.isSafeInteger\<close>).\<close>

definition isSafeInteger :: "int \<Rightarrow> bool" where
  "isSafeInteger n = (- (2 ^ 53) < n \<and> n < 2 ^ 53)"

subsection \<open>Numbers as decimal strings\<close>

text \<open>Decimal printing of a number is that of its integer for magnitudes below \<open>10 ^ 21\<close>,
  which covers the safe integers.\<close>

definition digit :: "nat \<Rightarrow> char" where
  "digit d = ''0123456789ABCDEF'' ! (d mod 16)"

function decimal :: "nat \<Rightarrow> string" where
  "decimal n = (if n < 10 then [digit n] else decimal (n div 10) @ [digit (n mod 10)])"
  by pat_completeness auto
termination
  by (relation "measure id") auto

declare decimal.simps [simp del]

definition numberToString :: "int \<Rightarrow> string" where
  "numberToString n = (if n < 0 then CHR ''-'' # decimal (nat (- n)) else decimal (nat n))"

subsection \<open>ToString and \<^verbatim>\<open>Array.prototype.join\<close>\<close>

text \<open>
  \<^verbatim>\<open>join\<close> renders \<open>undefined\<close> and \<open>null\<close> elements as the empty string and every other
  element by ToString; ToString of an array is its join with a comma.
\<close>

fun toString :: "jsval \<Rightarrow> string"
  and joinElem :: "jsval \<Rightarrow> string"
  and join :: "string \<Rightarrow> jsval list \<Rightarrow> string" where
  "toString JUndefined = ''undefined''"
| "toString JNull = ''null''"
| "toString (JBool b) = (if b then ''true'' else ''false'')"
| "toString (JNum n) = numberToString n"
| "toString JNaN = ''NaN''"
| "toString (JStr s) = s"
| "toString (JArr xs) = join '','' xs"
| "joinElem JUndefined = []"
| "joinElem JNull = []"
| "joinElem (JBool b) = toString (JBool b)"
| "joinElem (JNum n) = toString (JNum n)"
| "joinElem JNaN = toString JNaN"
| "joinElem (JStr s) = toString (JStr s)"
| "joinElem (JArr xs) = toString (JArr xs)"
| "join sep [] = []"
| "join sep [x] = joinElem x"
| "join sep (x # y # ys) = joinElem x @ sep @ join sep (y # ys)"

subsection \<open>\<^verbatim>\<open>String.prototype.toLowerCase\<close>\<close>

text \<open>
  Among the code units below 256 the upper-case letters are \<^verbatim>\<open>A\<close> to \<^verbatim>\<open>Z\<close> (65 to 90) and
  the accented capitals of Latin-1 (192 to 214 and 216 to 222; 215 is the multiplication
  sign). The lower-case letter of each is 32 code units further on. Every other code unit
  below 256 is its own lower case, and the string keeps its length.
\<close>

definition upperCaseCode :: "nat \<Rightarrow> bool" where
  "upperCaseCode n = ((65 \<le> n \<and> n \<le> 90) \<or> (192 \<le> n \<and> n \<le> 214) \<or> (216 \<le> n \<and> n \<le> 222))"

definition lowerChar :: "char \<Rightarrow> char" where
  "lowerChar c = (if upperCaseCode (of_char c) then char_of (of_char c + 32 :: nat) else c)"

definition toLowerCase :: "string \<Rightarrow> string" where
  "toLowerCase s = map lowerChar s"

section \<open>Node's \<^verbatim>\<open>querystring\<close> module\<close>

text \<open>
  \<^verbatim>\<open>querystring.stringify\<close> is a library function of the runtime. It is modelled after its
  documented behaviour: the own keys of the object in order, \<^verbatim>\<open>key=value\<close> fields joined by
  \<^verbatim>\<open>&\<close>, an array value giving one field per element, strings, finite numbers and booleans
  printed and percent-encoded, and every other value coerced to the empty string. An object
  is an association list in insertion order (the keys used here are not array indices, so
  insertion order is the enumeration order).
\<close>

definition unreserved :: "char \<Rightarrow> bool" where
  "unreserved c =
     (c \<in> set ''ABCDEFGHIJKLMNOPQRSTUVWXYZabcdefghijklmnopqrstuvwxyz0123456789-_.!~*()''
      \<or> c = CHR 0x27)"

definition percent :: "nat \<Rightarrow> string" where
  "percent b = [CHR ''%'', digit (b div 16), digit (b mod 16)]"

text \<open>A code unit that is not unreserved is replaced by the bytes of its UTF-8 encoding, each
  as a percent sign and two hexadecimal digits: one byte below 128, two bytes from 128 on.\<close>

definition escapeChar :: "char \<Rightarrow> string" where
  "escapeChar c =
     (let n = (of_char c :: nat) in
      if unreserved c then [c]
      else if n < 128 then percent n
      else percent (192 + n div 64) @ percent (128 + n mod 64))"

definition escape :: "string \<Rightarrow> string" where
  "escape s = concat (map escapeChar s)"

fun stringifyPrimitive :: "jsval \<Rightarrow> string" where
  "stringifyPrimitive (JStr s) = s"
| "stringifyPrimitive (JNum n) = numberToString n"
| "stringifyPrimitive (JBool b) = (if b then ''true'' else ''false'')"
| "stringifyPrimitive JUndefined = []"
| "stringifyPrimitive JNull = []"
| "stringifyPrimitive JNaN = []"
| "stringifyPrimitive (JArr xs) = []"

definition convert :: "jsval \<Rightarrow> string" where
  "convert v = escape (stringifyPrimitive v)"

fun formFields :: "string \<times> jsval \<Rightarrow> string list" where
  "formFields (k, JArr vs) = map (\<lambda>v. escape k @ ''='' @ convert v) vs"
| "formFields (k, v) = [escape k @ ''='' @ convert v]"

fun joinStrings :: "string \<Rightarrow> string list \<Rightarrow> string" where
  "joinStrings sep [] = []"
| "joinStrings sep [x] = x"
| "joinStrings sep (x # y # ys) = x @ sep @ joinStrings sep (y # ys)"

definition stringify :: "(string \<times> jsval) list option \<Rightarrow> string" where
  "stringify obj =
     (case obj of
        None \<Rightarrow> []
      | Some kvs \<Rightarrow> joinStrings ''&'' (concat (map formFields kvs)))"

section \<open>The client\<close>

text \<open>
  A nonce-update policy is any function the caller supplies. It may read and write a store
  of its own (a file, a database), so it maps the current nonce and the state \<open>'w\<close> of
  that store to the value its promise resolves to and the new state of the store.
  An option or a field that should hold a function may hold any other value instead.
\<close>

type_synonym 'w policy = "jsval \<Rightarrow> 'w \<Rightarrow> jsval \<times> 'w"

datatype 'w callable = NotFn jsval | Fn "'w policy"

record 'w yobit =
  key :: string
  secret :: string
  proxyUrl :: jsval
  nonce :: jsval
  nonceUpdateFn :: "'w callable"

record 'w options =
  opt_nonce :: jsval
  opt_nonceUpdateFn :: "'w callable"
  opt_proxyUrl :: jsval

text \<open>\<^verbatim>\<open>nonce + 1\<close>: addition of doubles, or concatenation when the left operand is a string
  or an array.\<close>

fun plusOne :: "jsval \<Rightarrow> jsval" where
  "plusOne (JNum n) = JNum (roundToDouble (n + 1))"
| "plusOne JNaN = JNaN"
| "plusOne JUndefined = JNaN"
| "plusOne JNull = JNum 1"
| "plusOne (JBool b) = JNum (if b then 2 else 1)"
| "plusOne (JStr s) = JStr (s @ ''1'')"
| "plusOne (JArr xs) = JStr (join '','' xs @ ''1'')"

definition defaultNonceUpdateFn :: "'w policy" where
  "defaultNonceUpdateFn n w = (plusOne n, w)"

text \<open>
  \<open>now\<close> is the reading of the clock, in milliseconds since the epoch. An omitted
  \<^verbatim>\<open>options\<close> argument is \<open>None\<close>; destructuring it throws.
\<close>

definition constructor :: "int \<Rightarrow> string \<Rightarrow> string \<Rightarrow> 'w options option \<Rightarrow> error + 'w yobit" where
  "constructor now k s options =
     (case options of
        None \<Rightarrow> Inl TypeError
      | Some opts \<Rightarrow>
          Inr \<lparr>key = k, secret = s, proxyUrl = opt_proxyUrl opts,
               nonce = (if truthy (opt_nonce opts) then opt_nonce opts else JNum (now div 1000)),
               nonceUpdateFn =
                 (case opt_nonceUpdateFn opts of
                    Fn f \<Rightarrow> Fn f
                  | NotFn v \<Rightarrow> if truthy v then NotFn v else Fn defaultNonceUpdateFn)\<rparr>)"

definition apiHost :: string where
  "apiHost = ''https://yobit.net''"

definition publicApiUrl :: string where
  "publicApiUrl = apiHost @ ''/'' @ ''api/3''"

definition privateApiUrl :: string where
  "privateApiUrl = apiHost @ ''/'' @ ''tapi''"

definition publicUrl :: "string \<Rightarrow> string" where
  "publicUrl m = publicApiUrl @ ''/'' @ m"

fun formatPairs :: "jsval \<Rightarrow> error + string" where
  "formatPairs (JArr xs) = Inr (toLowerCase (join ''-'' xs))"
| "formatPairs (JStr s) = Inr (toLowerCase s)"
| "formatPairs JUndefined = Inl TypeError"
| "formatPairs JNull = Inl TypeError"
| "formatPairs (JBool b) = Inl TypeError"
| "formatPairs (JNum n) = Inl TypeError"
| "formatPairs JNaN = Inl TypeError"

text \<open>The HMAC-SHA512 of the crypto library, hex-encoded, is a parameter: message, then key.\<close>

type_synonym hmac = "string \<Rightarrow> string \<Rightarrow> string"

definition sign :: "hmac \<Rightarrow> string \<Rightarrow> string \<Rightarrow> string" where
  "sign HmacSHA512 message s = HmacSHA512 message s"

section \<open>Requests\<close>

text \<open>
  The options object handed to the HTTP library. An absent property is \<open>None\<close>,
  \<open>JUndefined\<close> or \<open>False\<close>. The HTTP library itself is outside the repository: a call
  returns the options object it hands over, which is the request that is sent.
\<close>

record config =
  uri :: string
  "method" :: "string option"
  form :: "(string \<times> jsval) list option"
  headers :: "(string \<times> string) list option"
  proxy :: jsval
  json :: bool
  qs :: "(string \<times> jsval) list option"

subsection \<open>Public accessors\<close>

definition publicCfg :: "string \<Rightarrow> (string \<times> jsval) list option \<Rightarrow> config" where
  "publicCfg u q =
     \<lparr>uri = u, method = None, form = None, headers = None, proxy = JUndefined, json = True,
      qs = q\<rparr>"

definition info :: config where
  "info = publicCfg (publicUrl ''info'') None"

definition ticker :: "jsval \<Rightarrow> error + config" where
  "ticker pairs =
     (case formatPairs pairs of
        Inl e \<Rightarrow> Inl e
      | Inr p \<Rightarrow> Inr (publicCfg (publicUrl (''ticker/'' @ p)) None))"

text \<open>\<^verbatim>\<open>limit=100\<close> is a default parameter: it replaces an \<open>undefined\<close> argument only.\<close>

definition depth :: "jsval \<Rightarrow> jsval \<Rightarrow> error + config" where
  "depth pairs limit =
     (let limit' = (if limit = JUndefined then JNum 100 else limit) in
      case formatPairs pairs of
        Inl e \<Rightarrow> Inl e
      | Inr p \<Rightarrow> Inr (publicCfg (publicUrl (''depth/'' @ p)) (Some [(''limit'', limit')])))"

definition trades :: "jsval \<Rightarrow> error + config" where
  "trades pairs =
     (case formatPairs pairs of
        Inl e \<Rightarrow> Inl e
      | Inr p \<Rightarrow> Inr (publicCfg (publicUrl (''trades/'' @ p)) None))"

subsection \<open>The private request\<close>

text \<open>
  \<^verbatim>\<open>_request\<close> is an async function with one \<^verbatim>\<open>await\<close>. Up to the \<^verbatim>\<open>await\<close> it copies the
  options object and its headers and calls the policy on the stored nonce
  (\<open>request_begin\<close>); the call then gives up control. When it is resumed with the value
  the policy resolved to, it stores that value as the nonce, puts it into the form, signs
  the form and hands the request over (\<open>request_resume\<close>). Each half runs without
  interruption. \<open>request\<close> is a call that is awaited before anything else touches the
  client. Assigning \<^verbatim>\<open>form.nonce\<close> replaces the value of an existing key in place and appends
  a new key at the end. The line printed on the console is not modelled.
\<close>

definition headersOf :: "config \<Rightarrow> (string \<times> string) list" where
  "headersOf cfg = (case headers cfg of None \<Rightarrow> [] | Some h \<Rightarrow> h)"

definition formOf :: "config \<Rightarrow> (string \<times> jsval) list" where
  "formOf cfg = (case form cfg of None \<Rightarrow> [] | Some f \<Rightarrow> f)"

record suspended =
  s_cfg :: config
  s_value :: jsval

definition request_begin :: "'w yobit \<Rightarrow> config \<Rightarrow> 'w \<Rightarrow> error + suspended \<times> 'w" where
  "request_begin this cfg w =
     (let cfg' = cfg\<lparr>headers := Some (headersOf cfg)\<rparr> in
      case nonceUpdateFn this of
        NotFn v \<Rightarrow> Inl TypeError
      | Fn f \<Rightarrow> (case f (nonce this) w of (v, w') \<Rightarrow> Inr (\<lparr>s_cfg = cfg', s_value = v\<rparr>, w')))"

definition request_resume :: "hmac \<Rightarrow> 'w yobit \<Rightarrow> suspended \<Rightarrow> 'w yobit \<times> config" where
  "request_resume HmacSHA512 this p =
     (let this' = this\<lparr>nonce := s_value p\<rparr>;
          cfg = s_cfg p;
          form' = AList.update ''nonce'' (nonce this') (formOf cfg);
          headers' = AList.update ''key'' (key this') (headersOf cfg);
          headers'' =
            AList.update ''sign'' (sign HmacSHA512 (stringify (Some form')) (secret this'))
              headers'
      in (this',
          cfg\<lparr>form := Some form', headers := Some headers'',
              proxy := (if truthy (proxy cfg) then proxy cfg else proxyUrl this'),
              json := True\<rparr>))"

definition request :: "hmac \<Rightarrow> 'w yobit \<Rightarrow> config \<Rightarrow> 'w \<Rightarrow> error + 'w yobit \<times> config \<times> 'w" where
  "request HmacSHA512 this cfg w =
     (case request_begin this cfg w of
        Inl e \<Rightarrow> Inl e
      | Inr (p, w') \<Rightarrow>
          (case request_resume HmacSHA512 this p of (this', req) \<Rightarrow> Inr (this', req, w')))"

subsection \<open>Trading operation wrappers\<close>

definition privateCfg :: "(string \<times> jsval) list \<Rightarrow> config" where
  "privateCfg f =
     \<lparr>uri = privateApiUrl, method = Some ''POST'', form = Some f, headers = None,
      proxy = JUndefined, json = False, qs = None\<rparr>"

definition getInfo :: "hmac \<Rightarrow> 'w yobit \<Rightarrow> 'w \<Rightarrow> error + 'w yobit \<times> config \<times> 'w" where
  "getInfo H this w = request H this (privateCfg [(''method'', JStr ''getInfo'')]) w"

definition Trade ::
    "hmac \<Rightarrow> 'w yobit \<Rightarrow> jsval \<Rightarrow> jsval \<Rightarrow> jsval \<Rightarrow> jsval \<Rightarrow> 'w \<Rightarrow> error + 'w yobit \<times> config \<times> 'w" where
  "Trade H this pair type rate amount w =
     (case formatPairs pair of
        Inl e \<Rightarrow> Inl e
      | Inr p \<Rightarrow>
          request H this
            (privateCfg [(''method'', JStr ''Trade''), (''pair'', JStr p), (''type'', type),
                         (''rate'', rate), (''amount'', amount)]) w)"

definition ActiveOrders :: "hmac \<Rightarrow> 'w yobit \<Rightarrow> jsval \<Rightarrow> 'w \<Rightarrow> error + 'w yobit \<times> config \<times> 'w" where
  "ActiveOrders H this pair w =
     (case formatPairs pair of
        Inl e \<Rightarrow> Inl e
      | Inr p \<Rightarrow>
          request H this (privateCfg [(''method'', JStr ''ActiveOrders''), (''pair'', JStr p)]) w)"

definition OrderInfo :: "hmac \<Rightarrow> 'w yobit \<Rightarrow> jsval \<Rightarrow> 'w \<Rightarrow> error + 'w yobit \<times> config \<times> 'w" where
  "OrderInfo H this order_id w =
     request H this (privateCfg [(''method'', JStr ''OrderInfo''), (''order_id'', order_id)]) w"

definition CancelOrder :: "hmac \<Rightarrow> 'w yobit \<Rightarrow> jsval \<Rightarrow> 'w \<Rightarrow> error + 'w yobit \<times> config \<times> 'w" where
  "CancelOrder H this order_id w =
     request H this (privateCfg [(''method'', JStr ''CancelOrder''), (''order_id'', order_id)]) w"

text \<open>
  The options of \<^verbatim>\<open>TradeHistory\<close>; a property that is not given is \<open>JUndefined\<close>. The
  argument itself defaults to the empty object when it is omitted (\<open>None\<close>).
\<close>

record historyOptions =
  h_from :: jsval
  h_count :: jsval
  h_from_id :: jsval
  h_end_id :: jsval
  h_order :: jsval
  h_since :: jsval
  h_end :: jsval
  h_pair :: jsval

definition emptyObject :: historyOptions where
  "emptyObject =
     \<lparr>h_from = JUndefined, h_count = JUndefined, h_from_id = JUndefined,
      h_end_id = JUndefined, h_order = JUndefined, h_since = JUndefined, h_end = JUndefined,
      h_pair = JUndefined\<rparr>"

definition TradeHistory ::
    "hmac \<Rightarrow> 'w yobit \<Rightarrow> historyOptions option \<Rightarrow> 'w \<Rightarrow> error + 'w yobit \<times> config \<times> 'w" where
  "TradeHistory H this options w =
     (let opts = (case options of None \<Rightarrow> emptyObject | Some opts \<Rightarrow> opts) in
      request H this
        (privateCfg [(''method'', JStr ''TradeHistory''), (''from'', h_from opts),
                     (''count'', h_count opts), (''from_id'', h_from_id opts),
                     (''end_id'', h_end_id opts), (''order'', h_order opts),
                     (''since'', h_since opts), (''end'', h_end opts),
                     (''pair'', h_pair opts)]) w)"

definition GetDepositAddress ::
    "hmac \<Rightarrow> 'w yobit \<Rightarrow> jsval \<Rightarrow> jsval \<Rightarrow> 'w \<Rightarrow> error + 'w yobit \<times> config \<times> 'w" where
  "GetDepositAddress H this coinName need_new w =
     (let need_new' = (if need_new = JUndefined then JNum 0 else need_new) in
      request H this
        (privateCfg [(''method'', JStr ''GetDepositAddress''), (''coinName'', coinName),
                     (''need_new'', need_new')]) w)"

definition WithdrawCoinsToAddress ::
    "hmac \<Rightarrow> 'w yobit \<Rightarrow> jsval \<Rightarrow> jsval \<Rightarrow> jsval \<Rightarrow> 'w \<Rightarrow> error + 'w yobit \<times> config \<times> 'w" where
  "WithdrawCoinsToAddress H this coinName amount address w =
     request H this
       (privateCfg [(''method'', JStr ''WithdrawCoinsToAddress''), (''coinName'', coinName),
                    (''amount'', amount), (''address'', address)]) w"

definition CreateYobicode ::
    "hmac \<Rightarrow> 'w yobit \<Rightarrow> jsval \<Rightarrow> jsval \<Rightarrow> 'w \<Rightarrow> error + 'w yobit \<times> config \<times> 'w" where
  "CreateYobicode H this currency amount w =
     request H this
       (privateCfg [(''method'', JStr ''CreateYobicode''), (''currency'', currency),
                    (''amount'', amount)]) w"

definition RedeemYobicode :: "hmac \<Rightarrow> 'w yobit \<Rightarrow> jsval \<Rightarrow> 'w \<Rightarrow> error + 'w yobit \<times> config \<times> 'w" where
  "RedeemYobicode H this coupon w =
     request H this (privateCfg [(''method'', JStr ''RedeemYobicode''), (''coupon'', coupon)]) w"

subsection \<open>Sequences of calls\<close>

text \<open>Private requests issued one after the other, each awaited before the next begins.\<close>

fun requests ::
    "hmac \<Rightarrow> 'w yobit \<Rightarrow> config list \<Rightarrow> 'w \<Rightarrow> error + 'w yobit \<times> config list \<times> 'w" where
  "requests H this [] w = Inr (this, [], w)"
| "requests H this (cfg # cfgs) w =
     (case request H this cfg w of
        Inl e \<Rightarrow> Inl e
      | Inr (this', req, w') \<Rightarrow>
          (case requests H this' cfgs w' of
             Inl e \<Rightarrow> Inl e
           | Inr (this'', reqs, w'') \<Rightarrow> Inr (this'', req # reqs, w'')))"

text \<open>
  Calls that overlap. The runtime is single-threaded: a private call runs up to its
  \<^verbatim>\<open>await\<close> when it is invoked, and its remainder runs later, when the event loop resumes
  it. A schedule is the order of these events; calls are told apart by a number. A call
  whose first half throws is rejected and leaves no trace; resuming a call that is not
  waiting does nothing.
\<close>

datatype event = Invoke nat config | Resume nat

record 'w runtime =
  client :: "'w yobit"
  world :: 'w
  awaiting :: "(nat \<times> suspended) list"
  issued :: "(nat \<times> config) list"

fun step :: "hmac \<Rightarrow> 'w runtime \<Rightarrow> event \<Rightarrow> 'w runtime" where
  "step H r (Invoke i cfg) =
     (case request_begin (client r) cfg (world r) of
        Inl e \<Rightarrow> r
      | Inr (p, w') \<Rightarrow> r\<lparr>world := w', awaiting := awaiting r @ [(i, p)]\<rparr>)"
| "step H r (Resume i) =
     (case map_of (awaiting r) i of
        None \<Rightarrow> r
      | Some p \<Rightarrow>
          (case request_resume H (client r) p of
             (this', req) \<Rightarrow>
               r\<lparr>client := this', awaiting := AList.delete i (awaiting r),
                  issued := issued r @ [(i, req)]\<rparr>))"

definition run :: "hmac \<Rightarrow> event list \<Rightarrow> 'w runtime \<Rightarrow> 'w runtime" where
  "run H evs r = foldl (step H) r evs"

definition start :: "'w yobit \<Rightarrow> 'w \<Rightarrow> 'w runtime" where
  "start this w = \<lparr>client = this, world = w, awaiting = [], issued = []\<rparr>"

subsection \<open>Reading a request\<close>

text \<open>The string that is signed, the nonce in the form, and a header of a request.\<close>

definition signedBody :: "config \<Rightarrow> string" where
  "signedBody req = stringify (form req)"

definition bodyNonce :: "config \<Rightarrow> jsval option" where
  "bodyNonce req = map_of (formOf req) ''nonce''"

definition header :: "config \<Rightarrow> string \<Rightarrow> string option" where
  "header req name = map_of (headersOf req) name"

definition qsOf :: "config \<Rightarrow> (string \<times> jsval) list" where
  "qsOf cfg = (case qs cfg of None \<Rightarrow> [] | Some q \<Rightarrow> q)"

text \<open>A request without credentials: no key header, no sign header, no nonce field.\<close>

definition anonymous :: "config \<Rightarrow> bool" where
  "anonymous req =
     (header req ''key'' = None \<and> header req ''sign'' = None \<and> bodyNonce req = None
      \<and> map_of (qsOf req) ''nonce'' = None)"

text \<open>The request a call hands over, if it does not throw.\<close>

definition sent :: "error + 'w yobit \<times> config \<times> 'w \<Rightarrow> config option" where
  "sent r = (case r of Inl e \<Rightarrow> None | Inr (this, req, w) \<Rightarrow> Some req)"

text \<open>The requests a sequence of calls hands over, if none of them throws.\<close>

definition sentAll :: "error + 'w yobit \<times> config list \<times> 'w \<Rightarrow> config list option" where
  "sentAll r = (case r of Inl e \<Rightarrow> None | Inr (this, reqs, w) \<Rightarrow> Some reqs)"

text \<open>Stand-ins for evaluating examples: a keyed digest, and the options and the client of
  the end-to-end scenario, with the default policy and no store.\<close>

definition exampleHmac :: hmac where
  "exampleHmac message k = ''hmac('' @ k @ '','' @ message @ '')''"

definition exampleOptions :: "unit options" where
  "exampleOptions =
     \<lparr>opt_nonce = JNum 1000, opt_nonceUpdateFn = NotFn JUndefined, opt_proxyUrl = JUndefined\<rparr>"

definition exampleClient :: "unit yobit" where
  "exampleClient =
     \<lparr>key = ''k'', secret = ''s'', proxyUrl = JUndefined, nonce = JNum 1000,
      nonceUpdateFn = Fn defaultNonceUpdateFn\<rparr>"

definition emptyOptions :: "unit options" where
  "emptyOptions =
     \<lparr>opt_nonce = JUndefined, opt_nonceUpdateFn = NotFn JUndefined, opt_proxyUrl = JUndefined\<rparr>"

text \<open>A policy with a store of its own: it adds one and counts how often it was called.\<close>

definition countingPolicy :: "nat policy" where
  "countingPolicy n calls = (plusOne n, Suc calls)"

section \<open>Facts about the library functions\<close>

text \<open>Integers of magnitude up to \<open>2 ^ 53\<close> are doubles, so a sum in that range is exact.\<close>

lemma roundToDouble_exact:
  assumes "- (2 ^ 53) \<le> m" and "m \<le> 2 ^ 53"
  shows "roundToDouble m = m"
proof (cases "\<bar>m\<bar> < 2 ^ 53")
  case True
  then have "shifts \<bar>m\<bar> = 0"
    by (simp add: shifts.simps)
  then show ?thesis
    by (simp add: roundToDouble_def mult_sgn_abs)
next
  case False
  with assms have a: "\<bar>m\<bar> = 9007199254740992"
    by simp
  have s: "shifts 9007199254740992 = 1"
    by (simp add: shifts.simps)
  have "sgn m * \<bar>m\<bar> = m"
    by (rule mult_sgn_abs)
  then have "sgn m * 9007199254740992 = m"
    unfolding a .
  then show ?thesis
    by (simp add: roundToDouble_def a s)
qed

lemma plusOne_safe: "isSafeInteger n \<Longrightarrow> plusOne (JNum n) = JNum (n + 1)"
  by (simp add: isSafeInteger_def roundToDouble_exact)

text \<open>From \<open>2 ^ 53\<close> on, adding one may give the number back.\<close>

lemma roundToDouble_stalls: "roundToDouble 9007199254740993 = 9007199254740992"
  by code_simp

text \<open>Lower-casing in terms of code units.\<close>

lemma of_char_lowerChar:
  "(of_char (lowerChar c) :: nat) =
     (if upperCaseCode (of_char c) then of_char c + 32 else of_char c)"
  by (auto simp: lowerChar_def upperCaseCode_def)

section \<open>Facts about the private request\<close>

lemma request_Fn:
  assumes "nonceUpdateFn this = Fn f" and "f (nonce this) w = (v, w')"
  shows "request H this cfg w =
    Inr (this\<lparr>nonce := v\<rparr>,
         cfg\<lparr>form := Some (AList.update ''nonce'' v (formOf cfg)),
             headers := Some (AList.update ''sign''
                 (H (stringify (Some (AList.update ''nonce'' v (formOf cfg)))) (secret this))
                 (AList.update ''key'' (key this) (headersOf cfg))),
             proxy := (if truthy (proxy cfg) then proxy cfg else proxyUrl this),
             json := True\<rparr>,
         w')"
  using assms
  by (simp add: request_def request_begin_def request_resume_def Let_def sign_def
      headersOf_def formOf_def)

lemma request_NotFn: "nonceUpdateFn this = NotFn v \<Longrightarrow> request H this cfg w = Inl TypeError"
  by (simp add: request_def request_begin_def)

lemma cancel_body:
  "stringify (Some [(''method'', JStr ''CancelOrder''), (''order_id'', JNum 42), (''nonce'', JNum 1001)])
     = ''method=CancelOrder&order_id=42&nonce=1001''"
  by code_simp

section \<open>The pair normalizer\<close>

text \<open>
  C7: the pair normalizer maps \<^verbatim>\<open>["BTC_USD"]\<close> to \<^verbatim>\<open>btc_usd\<close> and
  \<^verbatim>\<open>["BTC_USD","LTC_BTC"]\<close> to \<^verbatim>\<open>btc_usd-ltc_btc\<close>, and a single string to that string
  lower-cased: the result has the same length, each upper-case letter is replaced by its
  lower-case letter and every other character is unchanged.
\<close>

theorem formatPairs_normalises:
  "formatPairs (JArr [JStr ''BTC_USD'']) = Inr ''btc_usd''
   \<and> formatPairs (JArr [JStr ''BTC_USD'', JStr ''LTC_BTC'']) = Inr ''btc_usd-ltc_btc''
   \<and> formatPairs (JStr s) = Inr (toLowerCase s)
   \<and> length (toLowerCase s) = length s
   \<and> (\<forall>i < length s.
        (of_char (toLowerCase s ! i) :: nat) =
          (if upperCaseCode (of_char (s ! i)) then of_char (s ! i) + 32 else of_char (s ! i)))"
proof -
  have "formatPairs (JArr [JStr ''BTC_USD'']) = Inr ''btc_usd''"
    by code_simp
  moreover have "formatPairs (JArr [JStr ''BTC_USD'', JStr ''LTC_BTC'']) = Inr ''btc_usd-ltc_btc''"
    by code_simp
  moreover have "\<forall>i < length s.
        (of_char (toLowerCase s ! i) :: nat) =
          (if upperCaseCode (of_char (s ! i)) then of_char (s ! i) + 32 else of_char (s ! i))"
    by (simp add: toLowerCase_def of_char_lowerChar)
  ultimately show ?thesis
    by (simp add: toLowerCase_def)
qed

theorem formatPairs_normalises_witness:
  "formatPairs (JStr ''Ltc_BTC'') = Inr ''ltc_btc''
   \<and> (of_char (''ltc_btc'' ! 0) :: nat) = of_char (''Ltc_BTC'' ! 0) + 32
   \<and> (of_char (''ltc_btc'' ! 3) :: nat) = of_char (''Ltc_BTC'' ! 3)
   \<and> formatPairs (JStr [CHR 0xC0, CHR ''B'', CHR 0xD7]) = Inr [CHR 0xE0, CHR ''b'', CHR 0xD7]"
proof -
  have s: "toLowerCase ''Ltc_BTC'' = ''ltc_btc''"
    by code_simp
  have t: "toLowerCase [CHR 0xC0, CHR ''B'', CHR 0xD7] = [CHR 0xE0, CHR ''b'', CHR 0xD7]"
    by code_simp
  have u: "upperCaseCode (of_char (CHR ''L''))" "\<not> upperCaseCode (of_char (CHR ''_''))"
    by (simp_all add: upperCaseCode_def)
  from formatPairs_normalises [of "''Ltc_BTC''"]
    formatPairs_normalises [of "[CHR 0xC0, CHR ''B'', CHR 0xD7]"]
  show ?thesis
    unfolding s t using u by simp
qed

section \<open>Construction\<close>

text \<open>
  C9: constructing a client without the options argument throws, because the constructor
  destructures the argument unconditionally; with an options object, even an empty one,
  construction succeeds.
\<close>

theorem constructor_requires_options:
  "constructor now k s None = Inl TypeError
   \<and> (\<exists>this. constructor now k s (Some opts) = Inr this)"
  by (simp add: constructor_def)

theorem constructor_requires_options_witness:
  "constructor 1700000000123 ''k'' ''s'' (None :: unit options option) = Inl TypeError
   \<and> constructor 1700000000123 ''k'' ''s'' (Some emptyOptions) =
       Inr \<lparr>key = ''k'', secret = ''s'', proxyUrl = JUndefined, nonce = JNum 1700000000,
            nonceUpdateFn = Fn defaultNonceUpdateFn\<rparr>"
  using constructor_requires_options [of 1700000000123 "''k''" "''s''" emptyOptions]
  by (simp add: constructor_def emptyOptions_def)

text \<open>
  C10: a falsy construction option counts as absent. The number 0 is falsy; a falsy
  initial nonce makes the client start from the clock in seconds, and a falsy
  \<^verbatim>\<open>nonceUpdateFn\<close> makes it use the default policy, which adds one to a number: the sum
  as a double, which is the exact sum on the safe integers.
\<close>

theorem falsy_options_are_absent:
  "\<not> truthy (JNum 0)
   \<and> (\<exists>this. constructor now k s (Some opts) = Inr this
         \<and> (\<not> truthy (opt_nonce opts) \<longrightarrow> nonce this = JNum (now div 1000))
         \<and> (\<forall>v. opt_nonceUpdateFn opts = NotFn v \<and> \<not> truthy v \<longrightarrow>
                nonceUpdateFn this = Fn defaultNonceUpdateFn))
   \<and> defaultNonceUpdateFn (JNum n) w = (JNum (roundToDouble (n + 1)), w)
   \<and> (isSafeInteger n \<longrightarrow> roundToDouble (n + 1) = n + 1)"
  by (auto simp: constructor_def defaultNonceUpdateFn_def isSafeInteger_def
      roundToDouble_exact)

theorem falsy_options_are_absent_witness:
  "\<exists>this. constructor 1700000000123 ''k'' ''s''
       (Some \<lparr>opt_nonce = JNum 0, opt_nonceUpdateFn = NotFn (JBool False),
              opt_proxyUrl = JUndefined\<rparr>) = Inr this
     \<and> nonce this = JNum 1700000000
     \<and> nonceUpdateFn this = (Fn defaultNonceUpdateFn :: unit callable)"
  using falsy_options_are_absent
    [of 1700000000123 "''k''" "''s''"
        "\<lparr>opt_nonce = JNum 0, opt_nonceUpdateFn = NotFn (JBool False),
          opt_proxyUrl = JUndefined\<rparr> :: unit options" 0 "()"]
  by simp

section \<open>The signed request\<close>

text \<open>
  C1: a client constructed with key \<^verbatim>\<open>k\<close>, secret \<^verbatim>\<open>s\<close>, initial nonce 1000 and no policy
  of its own, asked to cancel order 42, signs exactly the string
  \<^verbatim>\<open>method=CancelOrder&order_id=42&nonce=1001\<close>, built from the form in that key order, and
  sends the digest of that string under the secret as the \<^verbatim>\<open>sign\<close> header.
\<close>

theorem cancel_order_end_to_end:
  "\<exists>this this' req.
     constructor now ''k'' ''s''
       (Some \<lparr>opt_nonce = JNum 1000, opt_nonceUpdateFn = NotFn JUndefined, opt_proxyUrl = p\<rparr>)
       = Inr this
     \<and> CancelOrder H this (JNum 42) w = Inr (this', req, w)
     \<and> nonce this' = JNum 1001
     \<and> form req =
         Some [(''method'', JStr ''CancelOrder''), (''order_id'', JNum 42), (''nonce'', JNum 1001)]
     \<and> signedBody req = ''method=CancelOrder&order_id=42&nonce=1001''
     \<and> headers req =
         Some [(''key'', ''k''), (''sign'', H ''method=CancelOrder&order_id=42&nonce=1001'' ''s'')]"
proof -
  let ?c = "\<lparr>key = ''k'', secret = ''s'', proxyUrl = p, nonce = JNum 1000,
                nonceUpdateFn = Fn defaultNonceUpdateFn\<rparr>"
  have c: "constructor now ''k'' ''s''
       (Some \<lparr>opt_nonce = JNum 1000, opt_nonceUpdateFn = NotFn JUndefined, opt_proxyUrl = p\<rparr>)
       = Inr ?c"
    by (simp add: constructor_def)
  have r: "CancelOrder H ?c (JNum 42) w =
      Inr (?c\<lparr>nonce := JNum 1001\<rparr>,
           (privateCfg [(''method'', JStr ''CancelOrder''), (''order_id'', JNum 42)])
             \<lparr>form := Some [(''method'', JStr ''CancelOrder''), (''order_id'', JNum 42),
                            (''nonce'', JNum 1001)],
              headers := Some [(''key'', ''k''),
                (''sign'', H ''method=CancelOrder&order_id=42&nonce=1001'' ''s'')],
              proxy := p, json := True\<rparr>, w)"
    unfolding CancelOrder_def
    by (subst request_Fn [where f = defaultNonceUpdateFn and v = "JNum 1001" and w' = w])
       (simp_all add: defaultNonceUpdateFn_def roundToDouble_exact privateCfg_def formOf_def
          headersOf_def cancel_body)
  show ?thesis
    by (simp add: c r signedBody_def cancel_body)
qed

theorem cancel_order_end_to_end_witness:
  "\<exists>this this' req.
     constructor 1700000000000 ''k'' ''s'' (Some exampleOptions) = Inr this
     \<and> CancelOrder exampleHmac this (JNum 42) () = Inr (this', req, ())
     \<and> nonce this' = JNum 1001
     \<and> form req =
         Some [(''method'', JStr ''CancelOrder''), (''order_id'', JNum 42), (''nonce'', JNum 1001)]
     \<and> signedBody req = ''method=CancelOrder&order_id=42&nonce=1001''
     \<and> headers req =
         Some [(''key'', ''k''),
               (''sign'', ''hmac(s,method=CancelOrder&order_id=42&nonce=1001)'')]"
  using cancel_order_end_to_end [of 1700000000000 JUndefined exampleHmac "()"]
  by (simp add: exampleOptions_def exampleHmac_def)

section \<open>Public accessors\<close>

text \<open>
  C8: every request built by the public accessors \<^verbatim>\<open>info\<close>, \<^verbatim>\<open>ticker\<close>, \<^verbatim>\<open>depth\<close> and
  \<^verbatim>\<open>trades\<close> is without credentials, whatever the arguments: it has no headers at all (so
  no key and no sign header), no form, and no nonce field in its query string. An argument
  that makes the pair normalizer throw produces no request.
\<close>

theorem public_accessors_anonymous:
  "headers info = None \<and> form info = None \<and> anonymous info
   \<and> (\<forall>cfg. ticker pairs = Inr cfg \<longrightarrow> headers cfg = None \<and> form cfg = None \<and> anonymous cfg)
   \<and> (\<forall>cfg. depth pairs limit = Inr cfg \<longrightarrow> headers cfg = None \<and> form cfg = None \<and> anonymous cfg)
   \<and> (\<forall>cfg. trades pairs = Inr cfg \<longrightarrow> headers cfg = None \<and> form cfg = None \<and> anonymous cfg)"
  by (auto simp: info_def ticker_def depth_def trades_def publicCfg_def anonymous_def
      header_def bodyNonce_def headersOf_def formOf_def qsOf_def Let_def split: sum.splits)

theorem public_accessors_anonymous_witness:
  "ticker (JStr ''BTC_USD'') =
     Inr \<lparr>uri = ''https://yobit.net/api/3/ticker/btc_usd'', method = None, form = None,
          headers = None, proxy = JUndefined, json = True, qs = None\<rparr>
   \<and> depth (JArr [JStr ''BTC_USD'', JStr ''LTC_BTC'']) JUndefined =
     Inr \<lparr>uri = ''https://yobit.net/api/3/depth/btc_usd-ltc_btc'', method = None, form = None,
          headers = None, proxy = JUndefined, json = True, qs = Some [(''limit'', JNum 100)]\<rparr>
   \<and> anonymous \<lparr>uri = ''https://yobit.net/api/3/ticker/btc_usd'', method = None, form = None,
          headers = None, proxy = JUndefined, json = True, qs = None\<rparr>
   \<and> anonymous \<lparr>uri = ''https://yobit.net/api/3/depth/btc_usd-ltc_btc'', method = None,
          form = None, headers = None, proxy = JUndefined, json = True,
          qs = Some [(''limit'', JNum 100)]\<rparr>"
proof -
  have t: "ticker (JStr ''BTC_USD'') =
     Inr \<lparr>uri = ''https://yobit.net/api/3/ticker/btc_usd'', method = None, form = None,
          headers = None, proxy = JUndefined, json = True, qs = None\<rparr>"
    by code_simp
  have d: "depth (JArr [JStr ''BTC_USD'', JStr ''LTC_BTC'']) JUndefined =
     Inr \<lparr>uri = ''https://yobit.net/api/3/depth/btc_usd-ltc_btc'', method = None, form = None,
          headers = None, proxy = JUndefined, json = True, qs = Some [(''limit'', JNum 100)]\<rparr>"
    by code_simp
  from public_accessors_anonymous [where pairs = "JStr ''BTC_USD''"]
    public_accessors_anonymous
      [where pairs = "JArr [JStr ''BTC_USD'', JStr ''LTC_BTC'']" and limit = JUndefined]
  show ?thesis
    unfolding t d by simp
qed

section \<open>The nonce of a private call\<close>

text \<open>
  C5: a private call whose policy is a function applies the policy to the stored nonce
  once (the policy's store is advanced by one application), stores the value it resolves
  to as the new nonce, puts that value into the nonce field of the form, signs the string
  of that form with the secret, and leaves \<^verbatim>\<open>key\<close>, \<^verbatim>\<open>secret\<close>, \<^verbatim>\<open>proxyUrl\<close> and
  \<^verbatim>\<open>nonceUpdateFn\<close> of the client as they were.
\<close>

theorem request_applies_policy_once:
  assumes "nonceUpdateFn this = Fn f" and "f (nonce this) w = (v, w')"
  shows "\<exists>this' req.
     request H this cfg w = Inr (this', req, w')
     \<and> nonce this' = v
     \<and> bodyNonce req = Some v
     \<and> header req ''sign'' = Some (H (signedBody req) (secret this))
     \<and> header req ''key'' = Some (key this)
     \<and> key this' = key this \<and> secret this' = secret this \<and> proxyUrl this' = proxyUrl this
     \<and> nonceUpdateFn this' = nonceUpdateFn this"
  unfolding request_Fn [OF assms]
  by (simp add: bodyNonce_def header_def signedBody_def formOf_def headersOf_def update_conv')

theorem request_applies_policy_once_witness:
  "\<exists>req.
     request exampleHmac
       \<lparr>key = ''k'', secret = ''s'', proxyUrl = JUndefined, nonce = JNum 1000,
        nonceUpdateFn = Fn countingPolicy\<rparr>
       (privateCfg [(''method'', JStr ''getInfo'')]) 0
     = Inr (\<lparr>key = ''k'', secret = ''s'', proxyUrl = JUndefined, nonce = JNum 1001,
             nonceUpdateFn = Fn countingPolicy\<rparr>, req, 1)
     \<and> bodyNonce req = Some (JNum 1001)
     \<and> header req ''sign'' = Some (exampleHmac (signedBody req) ''s'')"
  using request_applies_policy_once
    [of "\<lparr>key = ''k'', secret = ''s'', proxyUrl = JUndefined, nonce = JNum 1000,
          nonceUpdateFn = Fn countingPolicy\<rparr>" countingPolicy 0 "JNum 1001" 1 exampleHmac
        "privateCfg [(''method'', JStr ''getInfo'')]"]
  by (auto simp: countingPolicy_def roundToDouble_exact)

section \<open>Parameters without a value\<close>

lemma tradeHistory_body:
  "stringify (Some [(''method'', JStr ''TradeHistory''), (''from'', JUndefined),
      (''count'', JUndefined), (''from_id'', JUndefined), (''end_id'', JUndefined),
      (''order'', JUndefined), (''since'', JUndefined), (''end'', JUndefined),
      (''pair'', JUndefined), (''nonce'', JNum 1001)])
   = ''method=TradeHistory&from=&count=&from_id=&end_id=&order=&since=&end=&pair=&nonce=1001''"
  by code_simp

text \<open>
  C2: the specification says that a parameter without a value is not serialized into the
  signed body at all. A trade-history call without options hands over a form in which all
  eight parameters are \<open>undefined\<close>, and the string it signs names each of them with an
  empty value, \<^verbatim>\<open>from=\<close> first.
\<close>

theorem TradeHistory_signs_placeholders:
  "sent (TradeHistory exampleHmac exampleClient None ()) =
     Some \<lparr>uri = ''https://yobit.net/tapi'', method = Some ''POST'',
           form = Some [(''method'', JStr ''TradeHistory''), (''from'', JUndefined),
                        (''count'', JUndefined), (''from_id'', JUndefined),
                        (''end_id'', JUndefined), (''order'', JUndefined),
                        (''since'', JUndefined), (''end'', JUndefined),
                        (''pair'', JUndefined), (''nonce'', JNum 1001)],
           headers = Some [(''key'', ''k''),
             (''sign'', exampleHmac
                ''method=TradeHistory&from=&count=&from_id=&end_id=&order=&since=&end=&pair=&nonce=1001''
                ''s'')],
           proxy = JUndefined, json = True, qs = None\<rparr>
   \<and> map_option signedBody (sent (TradeHistory exampleHmac exampleClient None ())) =
     Some ''method=TradeHistory&from=&count=&from_id=&end_id=&order=&since=&end=&pair=&nonce=1001''"
  unfolding TradeHistory_def exampleClient_def
  by (subst request_Fn [where f = defaultNonceUpdateFn and v = "JNum 1001" and w' = "()"],
      simp, simp add: defaultNonceUpdateFn_def roundToDouble_exact)+
     (simp add: privateCfg_def privateApiUrl_def apiHost_def formOf_def headersOf_def
        emptyObject_def sent_def signedBody_def tradeHistory_body)

section \<open>Pairs in the wrappers\<close>

lemma pair_bodies:
  "toLowerCase ''LTC_BTC'' = ''ltc_btc''"
  "stringify (Some [(''method'', JStr ''TradeHistory''), (''from'', JUndefined),
      (''count'', JUndefined), (''from_id'', JUndefined), (''end_id'', JUndefined),
      (''order'', JUndefined), (''since'', JUndefined), (''end'', JUndefined),
      (''pair'', JStr ''LTC_BTC''), (''nonce'', JNum 1001)])
   = ''method=TradeHistory&from=&count=&from_id=&end_id=&order=&since=&end=&pair=LTC_BTC&nonce=1001''"
  "stringify (Some [(''method'', JStr ''ActiveOrders''), (''pair'', JStr ''ltc_btc''),
      (''nonce'', JNum 1001)])
   = ''method=ActiveOrders&pair=ltc_btc&nonce=1001''"
  "stringify (Some [(''method'', JStr ''Trade''), (''pair'', JStr ''ltc_btc''),
      (''type'', JStr ''buy''), (''rate'', JNum 2), (''amount'', JNum 3), (''nonce'', JNum 1001)])
   = ''method=Trade&pair=ltc_btc&type=buy&rate=2&amount=3&nonce=1001''"
  by code_simp+

text \<open>
  C6: the specification says that \<^verbatim>\<open>Trade\<close>, \<^verbatim>\<open>ActiveOrders\<close> and \<^verbatim>\<open>TradeHistory\<close> all pass their
  pair through the pair normalizer. \<^verbatim>\<open>TradeHistory\<close> does not: given the pair \<^verbatim>\<open>LTC_BTC\<close>
  it signs \<^verbatim>\<open>pair=LTC_BTC\<close>, where \<^verbatim>\<open>ActiveOrders\<close> and \<^verbatim>\<open>Trade\<close> sign \<^verbatim>\<open>pair=ltc_btc\<close>.
\<close>

theorem TradeHistory_pair_not_normalised:
  "map_option signedBody
     (sent (TradeHistory exampleHmac exampleClient
        (Some (emptyObject\<lparr>h_pair := JStr ''LTC_BTC''\<rparr>)) ())) =
     Some ''method=TradeHistory&from=&count=&from_id=&end_id=&order=&since=&end=&pair=LTC_BTC&nonce=1001''
   \<and> map_option signedBody
     (sent (ActiveOrders exampleHmac exampleClient (JStr ''LTC_BTC'') ())) =
     Some ''method=ActiveOrders&pair=ltc_btc&nonce=1001''
   \<and> map_option signedBody
     (sent (Trade exampleHmac exampleClient (JStr ''LTC_BTC'') (JStr ''buy'') (JNum 2) (JNum 3) ())) =
     Some ''method=Trade&pair=ltc_btc&type=buy&rate=2&amount=3&nonce=1001''"
proof -
  have d: "defaultNonceUpdateFn (JNum 1000) () = (JNum 1001, ())"
    by (simp add: defaultNonceUpdateFn_def roundToDouble_exact)
  have n: "nonceUpdateFn exampleClient = Fn defaultNonceUpdateFn" "nonce exampleClient = JNum 1000"
    by (simp_all add: exampleClient_def)
  show ?thesis
    unfolding TradeHistory_def ActiveOrders_def Trade_def
    by (simp add: request_Fn [where f = defaultNonceUpdateFn and v = "JNum 1001" and w' = "()"]
        n d privateCfg_def formOf_def emptyObject_def sent_def signedBody_def pair_bodies)
qed

section \<open>Nonces of successive calls\<close>

lemma bodyNonce_request:
  assumes "nonceUpdateFn this = Fn f" and "f (nonce this) w = (v, w')"
    and "request H this cfg w = Inr (this', req, w'')"
  shows "bodyNonce req = Some v" and "this' = this\<lparr>nonce := v\<rparr>" and "w'' = w'"
  using assms(3) unfolding request_Fn [OF assms(1,2)]
  by (auto simp: bodyNonce_def formOf_def update_conv')

lemma upt_shift:
  "map g [Suc 0..<Suc (Suc k)] = g (Suc 0) # map (\<lambda>i. g (Suc i)) [Suc 0..<Suc k]"
proof -
  have "[Suc 0..<Suc (Suc k)] = Suc 0 # map Suc [Suc 0..<Suc k]"
    by (simp only: map_Suc_upt) (simp add: upt_conv_Cons)
  then show ?thesis
    by (simp only: list.map map_map comp_def)
qed

lemma requests_default:
  assumes "nonceUpdateFn this = Fn defaultNonceUpdateFn" and "nonce this = JNum n"
    and "isSafeInteger n" and "isSafeInteger (n + int (length cfgs))"
  shows "\<exists>reqs. requests H this cfgs w =
             Inr (this\<lparr>nonce := JNum (n + int (length cfgs))\<rparr>, reqs, w)
           \<and> map bodyNonce reqs = map (\<lambda>i. Some (JNum (n + int i))) [1..<Suc (length cfgs)]"
  using assms
proof (induction cfgs arbitrary: this n)
  case Nil
  then have "this\<lparr>nonce := JNum n\<rparr> = this"
    by (cases this) simp
  then show ?case by simp
next
  case (Cons cfg cfgs)
  let ?this1 = "this\<lparr>nonce := JNum (n + 1)\<rparr>"
  have d: "defaultNonceUpdateFn (nonce this) w = (JNum (n + 1), w)"
    using Cons.prems(2,3) by (simp add: defaultNonceUpdateFn_def plusOne_safe del: plusOne.simps)
  obtain req where r: "request H this cfg w = Inr (?this1, req, w)"
    using request_Fn [OF Cons.prems(1) d] by blast
  have b: "bodyNonce req = Some (JNum (n + 1))"
    using bodyNonce_request(1) [OF Cons.prems(1) d r] .
  have "nonceUpdateFn ?this1 = Fn defaultNonceUpdateFn" "nonce ?this1 = JNum (n + 1)"
    "isSafeInteger (n + 1)" "isSafeInteger (n + 1 + int (length cfgs))"
    using Cons.prems by (simp_all add: isSafeInteger_def)
  from Cons.IH [OF this] obtain reqs where
    rs: "requests H ?this1 cfgs w = Inr (?this1\<lparr>nonce := JNum (n + 1 + int (length cfgs))\<rparr>, reqs, w)"
    and ns: "map bodyNonce reqs = map (\<lambda>i. Some (JNum (n + 1 + int i))) [1..<Suc (length cfgs)]"
    by blast
  have "requests H this (cfg # cfgs) w =
      Inr (this\<lparr>nonce := JNum (n + int (length (cfg # cfgs)))\<rparr>, req # reqs, w)"
    using r rs by (simp add: add.commute add.left_commute)
  moreover have "map bodyNonce (req # reqs) =
      map (\<lambda>i. Some (JNum (n + int i))) [1..<Suc (length (cfg # cfgs))]"
  proof -
    have "map (\<lambda>i. Some (JNum (n + int i))) [Suc 0..<Suc (Suc (length cfgs))] =
        Some (JNum (n + 1)) # map (\<lambda>i. Some (JNum (n + 1 + int i))) [Suc 0..<Suc (length cfgs)]"
      by (subst upt_shift) (simp add: add.commute add.left_commute del: upt_Suc)
    with b ns show ?thesis
      by (simp del: upt_Suc)
  qed
  ultimately show ?case by blast
qed

text \<open>
  C4 (as stated, refuted): the specification says that sequential requests under the default
  policy carry distinct, strictly increasing nonces for every client and every number of
  requests. A client constructed with the initial nonce \<open>2 ^ 53\<close> sends that same nonce in
  two requests issued one after the other, since the sum of \<open>2 ^ 53\<close> and 1 as a double is
  \<open>2 ^ 53\<close>.
\<close>

theorem sequential_nonces_counterexample:
  "constructor 0 ''k'' ''s'' (Some (exampleOptions\<lparr>opt_nonce := JNum 9007199254740992\<rparr>)) =
     Inr (exampleClient\<lparr>nonce := JNum 9007199254740992\<rparr>)
   \<and> map_option (map bodyNonce)
       (sentAll (requests exampleHmac (exampleClient\<lparr>nonce := JNum 9007199254740992\<rparr>)
          [privateCfg [(''method'', JStr ''getInfo'')],
           privateCfg [(''method'', JStr ''getInfo'')]] ())) =
     Some [Some (JNum 9007199254740992), Some (JNum 9007199254740992)]"
  by (simp add: constructor_def exampleOptions_def exampleClient_def sentAll_def request_def
      request_begin_def request_resume_def defaultNonceUpdateFn_def roundToDouble_stalls
      bodyNonce_def formOf_def privateCfg_def Let_def)

text \<open>
  C4 (amended): for a client with the default policy whose stored nonce is an integer \<open>n\<close>,
  and every number \<open>N\<close> of private requests issued one after the other, each awaited before
  the next begins, such that \<open>n\<close> and \<open>n + N\<close> are safe integers, the requests carry
  pairwise distinct, strictly increasing nonces: \<open>n + 1\<close>, \<open>n + 2\<close>, up to \<open>n + N\<close>.
\<close>

theorem sequential_nonces_strictly_increasing:
  assumes "nonceUpdateFn this = Fn defaultNonceUpdateFn"
    and "nonce this = JNum n"
    and "isSafeInteger n" and "isSafeInteger (n + int (length cfgs))"
  shows "\<exists>this' reqs w' ns.
           requests H this cfgs w = Inr (this', reqs, w')
           \<and> length reqs = length cfgs
           \<and> map bodyNonce reqs = map (\<lambda>m. Some (JNum m)) ns
           \<and> ns = map (\<lambda>i. n + int i) [1..<Suc (length cfgs)]
           \<and> sorted_wrt (<) ns \<and> distinct ns"
proof -
  let ?ns = "map (\<lambda>i. n + int i) [1..<Suc (length cfgs)]"
  from requests_default [OF assms] obtain reqs where
    r: "requests H this cfgs w = Inr (this\<lparr>nonce := JNum (n + int (length cfgs))\<rparr>, reqs, w)"
    and ns: "map bodyNonce reqs = map (\<lambda>i. Some (JNum (n + int i))) [1..<Suc (length cfgs)]"
    by blast
  have "length (map bodyNonce reqs) = length [1..<Suc (length cfgs)]"
    unfolding ns by (rule length_map)
  then have "length reqs = length cfgs"
    by (simp del: upt_Suc)
  moreover have "map bodyNonce reqs = map (\<lambda>m. Some (JNum m)) ?ns"
    using ns by (simp add: comp_def del: upt_Suc)
  moreover have s: "sorted_wrt (<) ?ns"
    by (simp add: sorted_wrt_map sorted_wrt_upt del: upt_Suc)
  moreover have "distinct ?ns"
    using s by (simp only: strict_sorted_iff)
  ultimately show ?thesis
    using r by blast
qed

theorem sequential_nonces_strictly_increasing_witness:
  "\<exists>this' reqs w'.
     requests exampleHmac exampleClient
       [privateCfg [(''method'', JStr ''getInfo'')],
        privateCfg [(''method'', JStr ''OrderInfo''), (''order_id'', JNum 7)],
        privateCfg [(''method'', JStr ''getInfo'')]] () = Inr (this', reqs, w')
     \<and> map bodyNonce reqs = [Some (JNum 1001), Some (JNum 1002), Some (JNum 1003)]
     \<and> sorted_wrt (<) [1001, 1002, 1003 :: int] \<and> distinct [1001, 1002, 1003 :: int]"
  using sequential_nonces_strictly_increasing
    [of exampleClient 1000
        "[privateCfg [(''method'', JStr ''getInfo'')],
          privateCfg [(''method'', JStr ''OrderInfo''), (''order_id'', JNum 7)],
          privateCfg [(''method'', JStr ''getInfo'')]]" exampleHmac "()"]
  by (auto simp: exampleClient_def isSafeInteger_def upt_rec simp del: requests.simps)

section \<open>Overlapping calls\<close>

text \<open>A call that is invoked and resumed with nothing in between is an awaited request.\<close>

lemma run_awaited:
  assumes "request H this cfg w = Inr (this', req, w')"
  shows "run H [Invoke i cfg, Resume i] (start this w) =
           \<lparr>client = this', world = w', awaiting = [], issued = [(i, req)]\<rparr>"
  using assms
  by (auto simp: run_def start_def request_def split: sum.splits prod.splits)




end
